theory Spec2Isabelle
  imports Main
begin

section \<open>Requests, documents and the document store\<close>

text \<open>
  The two route modules (\<^verbatim>\<open>chatroom_routes.js\<close> and its sibling for projects) are the
  same text up to the resource name, so one set of handlers, parameterised by a
  description of the resource, embeds both: SHOW, CREATE, UPDATE and DESTROY.
\<close>

subsection \<open>What the client sends\<close>

text \<open>
  A parsed JSON value.  An object is the list of its key/value pairs; reading a key
  takes the first pair with that key (\<open>map_of\<close>), and an absent key reads as
  \<^verbatim>\<open>undefined\<close>, which is \<open>None\<close>.
\<close>

datatype json = JStr string | JNum int | JBool bool | JNull | JArr "json list"
  | JObj "(string \<times> json) list"

type_synonym jobj = "(string \<times> json) list"

text \<open>
  \<^verbatim>\<open>req.body\<close>: an object whose keys (\<^verbatim>\<open>chatroom\<close>, \<^verbatim>\<open>project\<close>, \<^verbatim>\<open>game\<close>, ...)
  hold nested objects; \<open>None\<close> is a key the body does not have.
\<close>

type_synonym body = "string \<rightharpoonup> jobj"

text \<open>\<^verbatim>\<open>delete obj[k]\<close> and \<^verbatim>\<open>obj[k] = v\<close>.\<close>

definition delete_key :: "string \<Rightarrow> jobj \<Rightarrow> jobj" where
  "delete_key k p = filter (\<lambda>(f, v). f \<noteq> k) p"

definition assign_key :: "string \<Rightarrow> json \<Rightarrow> jobj \<Rightarrow> jobj" where
  "assign_key k v p = (k, v) # delete_key k p"

subsection \<open>What the store holds\<close>

text \<open>
  An ObjectId is written as its 24 lower-case hexadecimal digits.  A stored value is a
  JSON-like value or an ObjectId: the schema types every participant and owner as
  \<^verbatim>\<open>mongoose.Schema.Types.ObjectId\<close>, so these are stored, and handed to the handlers,
  as ObjectId objects and not as strings.
\<close>

type_synonym oid = string

datatype sval = SOid oid | SStr string | SNum int | SBool bool | SNull | SArr "sval list"
  | SObj "(string \<times> sval) list"

type_synonym doc = "string \<rightharpoonup> sval"

text \<open>
  Every way a handler can leave through \<^verbatim>\<open>.catch(next)\<close> or a synchronous throw:
  the two custom errors, the \<^verbatim>\<open>TypeError\<close> of dereferencing \<^verbatim>\<open>undefined\<close> or of
  calling a method a value does not have, Mongoose's validation and cast errors, and
  an error of the database itself.
\<close>

datatype error = NotFound | NotOwner | TypeError | ValidationError | CastError | MongoError

datatype content = NoContent | Json string doc

record response =
  status :: nat
  content :: content

text \<open>
  One collection of the document database, keyed by ObjectId; \<open>next_id\<close> counts
  the identifiers handed out.  What the store adds to a document by itself (the
  \<^verbatim>\<open>_id\<close>, which is the key here, the timestamps, the version key, the empty
  \<^verbatim>\<open>messages\<close> array) is not among the fields of a \<open>doc\<close>.
\<close>

record store =
  docs :: "oid \<rightharpoonup> doc"
  next_id :: nat

definition empty_store :: store where
  "empty_store = \<lparr>docs = Map.empty, next_id = 0\<rparr>"

subsection \<open>ObjectIds\<close>

definition is_hex :: "char \<Rightarrow> bool" where
  "is_hex c = (c \<in> set ''0123456789abcdefABCDEF'')"

fun lower_hex :: "char \<Rightarrow> char" where
  "lower_hex c =
     (if c = CHR ''A'' then CHR ''a'' else if c = CHR ''B'' then CHR ''b''
      else if c = CHR ''C'' then CHR ''c'' else if c = CHR ''D'' then CHR ''d''
      else if c = CHR ''E'' then CHR ''e'' else if c = CHR ''F'' then CHR ''f''
      else c)"

text \<open>
  The cast of a string to an ObjectId, as it is applied to \<^verbatim>\<open>req.params.id\<close> in a
  query and to a string bound for an ObjectId path: 24 hexadecimal digits name an
  ObjectId, and the cast of anything else fails.  (Drivers of some versions also read any
  string of 12 bytes as an ObjectId; where a payload carries one, the outcome is left to
  \<open>cast_other\<close> below, and no property here is about a request id of that shape.)
\<close>

definition castObjectId :: "string \<Rightarrow> oid option" where
  "castObjectId x =
     (if length x = 24 \<and> list_all is_hex x then Some (map lower_hex x) else None)"

text \<open>The identifier the store gives its \<open>n\<close>-th document: 24 digits.\<close>

definition hex_digit :: "nat \<Rightarrow> char" where
  "hex_digit n = ''0123456789abcdef'' ! (n mod 16)"

fun hex_pad :: "nat \<Rightarrow> nat \<Rightarrow> string" where
  "hex_pad 0 n = []"
| "hex_pad (Suc k) n = hex_pad k (n div 16) @ [hex_digit n]"

definition new_oid :: "nat \<Rightarrow> oid" where
  "new_oid n = hex_pad 24 n"

subsection \<open>The schemas\<close>

text \<open>
  What distinguishes the two route modules: the body key the payload travels under
  (also the key of the JSON response) and the body key whose \<^verbatim>\<open>owner\<close> the POST
  handler assigns (line 62: \<^verbatim>\<open>req.body.game.owner\<close> for chatrooms,
  \<^verbatim>\<open>req.body.project.owner\<close> for projects); and, from the Mongoose schema, the paths
  whose casts are embedded here with their types, the paths marked
  \<^verbatim>\<open>required: true\<close>, and the other paths the schema or Mongoose declares (their
  casts are left to \<open>cast_other\<close>).  The two schemas of \<^verbatim>\<open>src/unnamed/part_001\<close>
  do not say which model they belong to; the one with a \<^verbatim>\<open>title\<close> is taken to be
  the project's.
\<close>

datatype kind = KOid | KString

record resource =
  res_key :: string
  owner_slot :: string
  paths :: "(string \<times> kind) list"
  required :: "string list"
  other_paths :: "string list"

definition chatroom :: resource where
  "chatroom = \<lparr>res_key = ''chatroom'', owner_slot = ''game'',
     paths = [(''user1'', KOid), (''user2'', KOid), (''owner'', KOid)],
     required = [''user1'', ''owner''],
     other_paths = [''messages'', ''_id'', ''id'', ''__v'', ''createdAt'', ''updatedAt'']\<rparr>"

definition project :: resource where
  "project = \<lparr>res_key = ''project'', owner_slot = ''project'',
     paths = [(''title'', KString), (''user1'', KOid), (''user2'', KOid), (''owner'', KOid)],
     required = [''title'', ''user1'', ''owner''],
     other_paths = [''user1Email'', ''user2Email'', ''messages'', ''_id'', ''id'', ''__v'',
       ''createdAt'', ''updatedAt'']\<rparr>"

subsection \<open>The storage collaborator\<close>

text \<open>
  The calls the handlers make on the Mongoose model, as atomic operations on the
  collection.  Embedded in full are: the cast of a string or \<^verbatim>\<open>null\<close> to an
  ObjectId path or a String path; strict mode, which drops a key the schema does not
  declare; the required-field validation of \<^verbatim>\<open>create\<close>; and updates made of plain
  field keys, \<^verbatim>\<open>$set\<close> and \<^verbatim>\<open>$unset\<close>.  Everything else Mongoose and the database
  may be asked to do is a parameter, so that what is proved holds whatever they do
  with it:
  \<^item> \<open>cast_other\<close>: the cast of a value to a path where it is not one of the above (a
    number for a String path, anything for \<^verbatim>\<open>messages\<close>, a value for a path with a
    unique index, ...): an error or the value stored;
  \<^item> \<open>update_other\<close>: the outcome of an update with other operators, dotted paths or
    conflicting parts: an error or the document afterwards;
  \<^item> \<open>create_other\<close>: the outcome of creating from a payload with such keys.

  Not represented is a refusal by the database of a document that casts and validates
  (the unique indexes on the e-mail paths of the project's schema); only the lemma on
  project creation below speaks of a creation that could meet one, and it speaks of
  those that succeed.
\<close>

record mongoose =
  cast_other :: "store \<Rightarrow> resource \<Rightarrow> string \<Rightarrow> json \<Rightarrow> error + sval"
  update_other :: "store \<Rightarrow> resource \<Rightarrow> jobj \<Rightarrow> doc \<Rightarrow> error + doc"
  create_other :: "store \<Rightarrow> resource \<Rightarrow> jobj \<Rightarrow> error + doc"

text \<open>A key that names a top-level field: no operator, no dotted path.\<close>

definition plain_key :: "string \<Rightarrow> bool" where
  "plain_key k = (k \<noteq> [] \<and> hd k \<noteq> CHR ''$'' \<and> CHR ''.'' \<notin> set k)"

datatype casted = Stored sval | Dropped | Refused error

definition cast_beyond :: "mongoose \<Rightarrow> store \<Rightarrow> resource \<Rightarrow> string \<Rightarrow> json \<Rightarrow> casted" where
  "cast_beyond M s r k v =
     (case cast_other M s r k v of Inl e \<Rightarrow> Refused e | Inr w \<Rightarrow> Stored w)"

definition cast_entry :: "mongoose \<Rightarrow> store \<Rightarrow> resource \<Rightarrow> string \<Rightarrow> json \<Rightarrow> casted" where
  "cast_entry M s r k v =
     (case map_of (paths r) k of
        Some KOid \<Rightarrow>
          (case v of
             JStr x \<Rightarrow>
               (case castObjectId x of
                  Some a \<Rightarrow> Stored (SOid a)
                | None \<Rightarrow> if length x = 12 then cast_beyond M s r k v else Refused CastError)
           | JNull \<Rightarrow> Stored SNull
           | _ \<Rightarrow> cast_beyond M s r k v)
      | Some KString \<Rightarrow>
          (case v of
             JStr x \<Rightarrow> Stored (SStr x)
           | JNull \<Rightarrow> Stored SNull
           | _ \<Rightarrow> cast_beyond M s r k v)
      | None \<Rightarrow> if k \<in> set (other_paths r) then cast_beyond M s r k v else Dropped)"

text \<open>
  Setting the entries of an object one by one; where a key occurs twice the first pair
  counts, as in reading.
\<close>

fun apply_sets :: "mongoose \<Rightarrow> store \<Rightarrow> resource \<Rightarrow> jobj \<Rightarrow> doc \<Rightarrow> error + doc" where
  "apply_sets M s r [] d = Inr d"
| "apply_sets M s r ((k, v) # rest) d =
     (case apply_sets M s r rest d of
        Inl e \<Rightarrow> Inl e
      | Inr d' \<Rightarrow>
          (case cast_entry M s r k v of
             Stored w \<Rightarrow> Inr (d'(k \<mapsto> w))
           | Dropped \<Rightarrow> Inr d'
           | Refused e \<Rightarrow> Inl e))"

text \<open>
  An update object as Mongoose reads it: the plain keys are folded into \<^verbatim>\<open>$set\<close>
  (a plain key wins over the same key inside \<^verbatim>\<open>$set\<close>), and \<^verbatim>\<open>$unset\<close> names the
  fields to remove.
\<close>

definition set_part :: "jobj \<Rightarrow> jobj" where
  "set_part p =
     filter (\<lambda>(k, v). k \<noteq> ''$set'' \<and> k \<noteq> ''$unset'') p @
     (case map_of p ''$set'' of Some (JObj q) \<Rightarrow> q | _ \<Rightarrow> [])"

definition unset_part :: "jobj \<Rightarrow> string list" where
  "unset_part p = (case map_of p ''$unset'' of Some (JObj q) \<Rightarrow> map fst q | _ \<Rightarrow> [])"

definition absent_or_object :: "json option \<Rightarrow> bool" where
  "absent_or_object x = (case x of None \<Rightarrow> True | Some (JObj q) \<Rightarrow> True | Some _ \<Rightarrow> False)"

definition embedded_update :: "resource \<Rightarrow> jobj \<Rightarrow> bool" where
  "embedded_update r p =
     (absent_or_object (map_of p ''$set'') \<and> absent_or_object (map_of p ''$unset'') \<and>
      list_all plain_key (map fst (set_part p)) \<and>
      list_all (\<lambda>k. plain_key k \<and> k \<notin> set (other_paths r) \<and> k \<notin> set (map fst (set_part p)))
        (unset_part p))"

definition remove_fields :: "resource \<Rightarrow> string list \<Rightarrow> doc \<Rightarrow> doc" where
  "remove_fields r ks d = (\<lambda>k. if k \<in> set ks \<and> k \<in> set (map fst (paths r)) then None else d k)"

definition update_doc :: "mongoose \<Rightarrow> store \<Rightarrow> resource \<Rightarrow> jobj \<Rightarrow> doc \<Rightarrow> error + doc" where
  "update_doc M s r p d =
     (if embedded_update r p
      then (case apply_sets M s r (set_part p) d of
              Inl e \<Rightarrow> Inl e
            | Inr d' \<Rightarrow> Inr (remove_fields r (unset_part p) d'))
      else update_other M s r p d)"

text \<open>
  \<^verbatim>\<open>findById\<close> and \<^verbatim>\<open>findOneAndUpdate\<close> take the raw \<^verbatim>\<open>req.params.id\<close> and cast
  it.  \<^verbatim>\<open>findById\<close> resolves to the document, which knows its \<^verbatim>\<open>_id\<close>, or to
  \<^verbatim>\<open>null\<close>; with \<^verbatim>\<open>{new: true}\<close> \<^verbatim>\<open>findOneAndUpdate\<close> resolves to the document
  after the update, to \<^verbatim>\<open>null\<close> when none matches.
\<close>

definition findById :: "string \<Rightarrow> store \<Rightarrow> error + (oid \<times> doc) option" where
  "findById rid s =
     (case castObjectId rid of
        None \<Rightarrow> Inl CastError
      | Some i \<Rightarrow> Inr (map_option (Pair i) (docs s i)))"

definition findOneAndUpdate ::
  "mongoose \<Rightarrow> resource \<Rightarrow> string \<Rightarrow> jobj \<Rightarrow> store \<Rightarrow> (error + doc option) \<times> store" where
  "findOneAndUpdate M r rid p s =
     (case castObjectId rid of
        None \<Rightarrow> (Inl CastError, s)
      | Some i \<Rightarrow>
          (case docs s i of
             None \<Rightarrow> (Inr None, s)
           | Some d \<Rightarrow>
               (case update_doc M s r p d of
                  Inl e \<Rightarrow> (Inl e, s)
                | Inr d' \<Rightarrow> (Inr (Some d'), s\<lparr>docs := (docs s)(i \<mapsto> d')\<rparr>))))"

definition deleteOne :: "oid \<Rightarrow> store \<Rightarrow> store" where
  "deleteOne i s = s\<lparr>docs := (docs s)(i := None)\<rparr>"

text \<open>
  \<^verbatim>\<open>create\<close>: the document is built from the payload, validated, and stored under a
  new identifier.  A required path must be present and not \<^verbatim>\<open>null\<close>, a required
  string not empty; a failed cast is reported by validation.
\<close>

definition present :: "sval option \<Rightarrow> bool" where
  "present x =
     (case x of None \<Rightarrow> False | Some SNull \<Rightarrow> False | Some (SStr t) \<Rightarrow> t \<noteq> [] | Some _ \<Rightarrow> True)"

definition validate :: "resource \<Rightarrow> doc \<Rightarrow> bool" where
  "validate r d = list_all (\<lambda>k. present (d k)) (required r)"

definition create_doc :: "mongoose \<Rightarrow> store \<Rightarrow> resource \<Rightarrow> jobj \<Rightarrow> error + doc" where
  "create_doc M s r p =
     (if list_all plain_key (map fst p)
      then (case apply_sets M s r p Map.empty of
              Inl e \<Rightarrow> Inl ValidationError
            | Inr d \<Rightarrow> if validate r d then Inr d else Inl ValidationError)
      else create_other M s r p)"

definition Model_create ::
  "mongoose \<Rightarrow> resource \<Rightarrow> jobj \<Rightarrow> store \<Rightarrow> (error + doc) \<times> store" where
  "Model_create M r p s =
     (case create_doc M s r p of
        Inl e \<Rightarrow> (Inl e, s)
      | Inr d \<Rightarrow>
          (Inr d, s\<lparr>docs := (docs s)(new_oid (next_id s) \<mapsto> d), next_id := Suc (next_id s)\<rparr>))"

subsection \<open>The helpers of \<^verbatim>\<open>lib/\<close>\<close>

text \<open>
  Modelled from the spec: \<^verbatim>\<open>lib/custom_errors\<close> (\<^verbatim>\<open>handle404\<close>) is not among the
  sources.  The spec: the "not found" classifier "maps an absent lookup result to a
  structured 404 failure"; a present result is passed on.
\<close>

definition handle404 :: "'a option \<Rightarrow> error + 'a" where
  "handle404 found = (case found of None \<Rightarrow> Inl NotFound | Some d \<Rightarrow> Inr d)"

text \<open>
  Modelled from the spec: \<^verbatim>\<open>lib/custom_errors\<close> (\<^verbatim>\<open>requireOwnership\<close>) is not among
  the sources.  The spec: the "not owner" classifier "maps a principal/resource mismatch
  to a structured 401 failure"; DELETE must "fail with NotOwner if the authenticated
  principal does not match the resource's \<^verbatim>\<open>owner\<close>".  The principal is given by
  its ObjectId.
\<close>

definition requireOwnership :: "oid \<Rightarrow> doc \<Rightarrow> error + unit" where
  "requireOwnership user d =
     (if d ''owner'' = Some (SOid user) then Inr () else Inl NotOwner)"

text \<open>
  Modelled from the spec: \<^verbatim>\<open>lib/remove_blank_fields\<close> is not among the sources.  The
  spec: the sanitizer "strips empty-string fields from a nested update payload before it
  reaches storage"; the comment at its import gives
  \<^verbatim>\<open>{ game: { title: '', text: 'foo' } } -> { game: { text: 'foo' } }\<close>.  A key is
  stripped when what it reads as is the empty string.
\<close>

definition removeBlankFields :: "jobj \<Rightarrow> jobj" where
  "removeBlankFields p = filter (\<lambda>(f, v). map_of p f \<noteq> Some (JStr '''')) p"

definition removeBlanks :: "body \<Rightarrow> body" where
  "removeBlanks b = (\<lambda>k. map_option removeBlankFields (b k))"

section \<open>The route handlers\<close>

text \<open>
  A handler takes the collection and returns the response, or the error handed to
  \<^verbatim>\<open>next\<close>, together with the collection afterwards.  \<open>rid\<close> is \<^verbatim>\<open>req.params.id\<close>
  as it stands in the URL.  The routes guarded by \<^verbatim>\<open>requireToken\<close> receive the
  authenticated principal's id (\<^verbatim>\<open>req.user.id\<close>, the digits of its ObjectId) as
  \<open>user\<close>; the PATCH route has no such guard and never reads \<^verbatim>\<open>req.user\<close>.
\<close>

text \<open>SHOW, lines 48-56.\<close>

definition show_route :: "resource \<Rightarrow> string \<Rightarrow> store \<Rightarrow> (error + response) \<times> store" where
  "show_route r rid s =
     (case findById rid s of
        Inl e \<Rightarrow> (Inl e, s)
      | Inr found \<Rightarrow>
          (case handle404 found of
             Inl e \<Rightarrow> (Inl e, s)
           | Inr (i, d) \<Rightarrow> (Inr \<lparr>status = 200, content = Json (res_key r) d\<rparr>, s)))"

text \<open>
  CREATE, lines 60-73.  The assignment of line 62 throws when \<^verbatim>\<open>req.body.<owner_slot>\<close>
  is \<^verbatim>\<open>undefined\<close>.  \<^verbatim>\<open>create(undefined)\<close> stores nothing and resolves to
  \<^verbatim>\<open>undefined\<close>, on which \<^verbatim>\<open>.toObject()\<close> throws.
\<close>

definition create_route ::
  "mongoose \<Rightarrow> resource \<Rightarrow> oid \<Rightarrow> body \<Rightarrow> store \<Rightarrow> (error + response) \<times> store" where
  "create_route M r user b s =
     (case b (owner_slot r) of
        None \<Rightarrow> (Inl TypeError, s)
      | Some g \<Rightarrow>
          (let b' = b(owner_slot r \<mapsto> assign_key ''owner'' (JStr user) g) in
           case b' (res_key r) of
             None \<Rightarrow> (Inl TypeError, s)
           | Some p \<Rightarrow>
               (case Model_create M r p s of
                  (Inl e, s') \<Rightarrow> (Inl e, s')
                | (Inr d, s') \<Rightarrow> (Inr \<lparr>status = 201, content = Json (res_key r) d\<rparr>, s'))))"

text \<open>
  UPDATE, lines 77-101.

  Line 91 compares a value of the payload with a value of the stored document by
  \<^verbatim>\<open>!==\<close>.  \<open>strict_eq\<close> is \<^verbatim>\<open>===\<close> between the two: \<^verbatim>\<open>undefined\<close> equals
  \<^verbatim>\<open>undefined\<close>, \<^verbatim>\<open>null\<close> equals \<^verbatim>\<open>null\<close>, strings, numbers and booleans are
  equal when they are the same, and an object of the stored document (an ObjectId, an
  array, a subdocument) is identical to nothing the request carries.
\<close>

fun strict_eq :: "json option \<Rightarrow> sval option \<Rightarrow> bool" where
  "strict_eq None None = True"
| "strict_eq (Some JNull) (Some SNull) = True"
| "strict_eq (Some (JStr x)) (Some (SStr y)) = (x = y)"
| "strict_eq (Some (JNum x)) (Some (SNum y)) = (x = y)"
| "strict_eq (Some (JBool x)) (Some (SBool y)) = (x = y)"
| "strict_eq x y = False"

text \<open>
  \<open>update_step\<close> is the callback of lines 84-96: it resolves either to what
  \<^verbatim>\<open>findOneAndUpdate\<close> resolves to, or to the message string of line 92, or it is
  rejected with the error of \<^verbatim>\<open>findOneAndUpdate\<close>.  \<open>toObject\<close> is the call of
  line 98 on what the callback resolved to: only a document has the method.
\<close>

datatype resolved = Document "doc option" | Message string

definition update_step ::
  "mongoose \<Rightarrow> resource \<Rightarrow> string \<Rightarrow> jobj \<Rightarrow> doc \<Rightarrow> store \<Rightarrow> (error + resolved) \<times> store" where
  "update_step M r rid p d s =
     (if d ''user2'' = None
      then (let (x, s') = findOneAndUpdate M r rid p s in (map_sum id Document x, s'))
      else if \<not> strict_eq (map_of p ''user1'') (d ''user1'') \<and>
              \<not> strict_eq (map_of p ''user2'') (d ''user2'')
      then (Inr (Message ''You are not involved in this project''), s)
      else (let (x, s') = findOneAndUpdate M r rid p s in (map_sum id Document x, s')))"

definition toObject :: "resolved \<Rightarrow> error + doc" where
  "toObject x =
     (case x of
        Document None \<Rightarrow> Inl TypeError
      | Document (Some d) \<Rightarrow> Inr d
      | Message m \<Rightarrow> Inl TypeError)"

text \<open>
  The payload as the callback sees it: after the \<^verbatim>\<open>removeBlanks\<close> middleware and the
  \<^verbatim>\<open>delete req.body.<res_key>.owner\<close> of line 80, which throws when the body has no
  such key.
\<close>

definition patch_payload :: "resource \<Rightarrow> body \<Rightarrow> jobj option" where
  "patch_payload r b = map_option (delete_key ''owner'') (removeBlanks b (res_key r))"

definition update_route ::
  "mongoose \<Rightarrow> resource \<Rightarrow> string \<Rightarrow> body \<Rightarrow> store \<Rightarrow> (error + response) \<times> store" where
  "update_route M r rid b s =
     (case patch_payload r b of
        None \<Rightarrow> (Inl TypeError, s)
      | Some p \<Rightarrow>
          (case findById rid s of
             Inl e \<Rightarrow> (Inl e, s)
           | Inr found \<Rightarrow>
               (case handle404 found of
                  Inl e \<Rightarrow> (Inl e, s)
                | Inr (i, d) \<Rightarrow>
                    (case update_step M r rid p d s of
                       (Inl e, s') \<Rightarrow> (Inl e, s')
                     | (Inr x, s') \<Rightarrow>
                         (case toObject x of
                            Inl e \<Rightarrow> (Inl e, s')
                          | Inr d' \<Rightarrow>
                              (Inr \<lparr>status = 201, content = Json (res_key r) d'\<rparr>, s'))))))"

text \<open>
  DESTROY, lines 105-118.  \<^verbatim>\<open>requireOwnership\<close> throws before \<^verbatim>\<open>deleteOne\<close> is
  reached; the deletion the handler issues is taken to have happened when it answers.
\<close>

definition destroy_route :: "oid \<Rightarrow> string \<Rightarrow> store \<Rightarrow> (error + response) \<times> store" where
  "destroy_route user rid s =
     (case findById rid s of
        Inl e \<Rightarrow> (Inl e, s)
      | Inr found \<Rightarrow>
          (case handle404 found of
             Inl e \<Rightarrow> (Inl e, s)
           | Inr (i, d) \<Rightarrow>
               (case requireOwnership user d of
                  Inl e \<Rightarrow> (Inl e, s)
                | Inr u \<Rightarrow> (Inr \<lparr>status = 204, content = NoContent\<rparr>, deleteOne i s))))"

section \<open>Sample requests and collections\<close>

text \<open>
  Five principals and a resource, by their ObjectIds, and the requests and collections
  the properties below are exercised on.  \<open>bare_mongoose\<close> is a Mongoose that refuses
  whatever is not embedded above; none of the samples asks it to.
\<close>

definition alice :: oid where
  "alice = ''5a7db6c74d55bc51bdf39791''"

definition bob :: oid where
  "bob = ''5a7db6c74d55bc51bdf39792''"

definition carol :: oid where
  "carol = ''5a7db6c74d55bc51bdf39793''"

definition dave :: oid where
  "dave = ''5a7db6c74d55bc51bdf39794''"

definition mallory :: oid where
  "mallory = ''5a7db6c74d55bc51bdf39795''"

definition room :: oid where
  "room = ''5a7db6c74d55bc51bdf39700''"

definition bare_mongoose :: mongoose where
  "bare_mongoose = \<lparr>cast_other = (\<lambda>s r k v. Inl MongoError),
     update_other = (\<lambda>s r p d. Inl MongoError),
     create_other = (\<lambda>s r p. Inl MongoError)\<rparr>"

text \<open>A resource between \<open>alice\<close> and \<open>bob\<close>, and one that \<open>alice\<close> holds alone.\<close>

definition pair_doc :: doc where
  "pair_doc = [''owner'' \<mapsto> SOid alice, ''user1'' \<mapsto> SOid alice, ''user2'' \<mapsto> SOid bob]"

definition pair_store :: store where
  "pair_store = \<lparr>docs = [room \<mapsto> pair_doc], next_id = 1\<rparr>"

definition solo_doc :: doc where
  "solo_doc = [''owner'' \<mapsto> SOid alice, ''user1'' \<mapsto> SOid alice]"

definition solo_store :: store where
  "solo_store = \<lparr>docs = [room \<mapsto> solo_doc], next_id = 1\<rparr>"

text \<open>\<^verbatim>\<open>{chatroom: {user1: carol, user2: dave}}\<close>: two strangers.\<close>

definition stranger_payload :: jobj where
  "stranger_payload = [(''user1'', JStr carol), (''user2'', JStr dave)]"

definition stranger_body :: body where
  "stranger_body = [''chatroom'' \<mapsto> stranger_payload]"

text \<open>\<^verbatim>\<open>{chatroom: {user1: alice, user2: bob}}\<close>: the two participants themselves.\<close>

definition same_payload :: jobj where
  "same_payload = [(''user1'', JStr alice), (''user2'', JStr bob)]"

definition same_body :: body where
  "same_body = [''chatroom'' \<mapsto> same_payload]"

text \<open>\<^verbatim>\<open>{project: {title: 'renamed'}}\<close>: an update that names no participant.\<close>

definition rename_payload :: jobj where
  "rename_payload = [(''title'', JStr ''renamed'')]"

definition rename_body :: body where
  "rename_body = [''project'' \<mapsto> rename_payload]"







text \<open>\<^verbatim>\<open>{chatroom: {$set: {owner: mallory}}}\<close>: the owner, set through an operator.\<close>

definition takeover_payload :: jobj where
  "takeover_payload = [(''$set'', JObj [(''owner'', JStr mallory)])]"

definition takeover_body :: body where
  "takeover_body = [''chatroom'' \<mapsto> takeover_payload]"

text \<open>\<^verbatim>\<open>{chatroom: {user1: 'not-an-id'}}\<close>: a participant that is no ObjectId.\<close>

definition bad_payload :: jobj where
  "bad_payload = [(''user1'', JStr ''not-an-id'')]"

definition bad_body :: body where
  "bad_body = [''chatroom'' \<mapsto> bad_payload]"

text \<open>
  \<^verbatim>\<open>{chatroom: {user2: bob, $unset: {user1: 1}}}\<close>: a second participant comes, the
  first is removed; and \<^verbatim>\<open>{chatroom: {topic: 'chat'}}\<close>, a field no schema declares.
\<close>

definition handover_payload :: jobj where
  "handover_payload = [(''user2'', JStr bob), (''$unset'', JObj [(''user1'', JNum 1)])]"

definition handover_body :: body where
  "handover_body = [''chatroom'' \<mapsto> handover_payload]"

definition handed_doc :: doc where
  "handed_doc = [''owner'' \<mapsto> SOid alice, ''user2'' \<mapsto> SOid bob]"

definition topic_payload :: jobj where
  "topic_payload = [(''topic'', JStr ''chat'')]"

definition topic_body :: body where
  "topic_body = [''chatroom'' \<mapsto> topic_payload]"

text \<open>
  \<^verbatim>\<open>{game: {}, chatroom: {title: 'hello', user1: alice, owner: mallory}}\<close>: a POST body
  that names an owner of its own, and the chatroom it is stored as.
\<close>

definition forged_payload :: jobj where
  "forged_payload = [(''title'', JStr ''hello''), (''user1'', JStr alice),
     (''owner'', JStr mallory)]"

definition forged_body :: body where
  "forged_body = [''game'' \<mapsto> [], ''chatroom'' \<mapsto> forged_payload]"

definition forged_doc :: doc where
  "forged_doc = [''owner'' \<mapsto> SOid mallory, ''user1'' \<mapsto> SOid alice]"

section \<open>Reading and writing objects\<close>

lemma map_of_absent: "k \<notin> fst ` set p \<Longrightarrow> map_of p k = None"
  by (simp add: map_of_eq_None_iff)

lemma delete_key_absent: "k \<notin> fst ` set (delete_key k p)"
  by (auto simp: delete_key_def)


lemma delete_key_plain:
  "list_all plain_key (map fst p) \<Longrightarrow> list_all plain_key (map fst (delete_key k p))"
  by (auto simp: delete_key_def list_all_iff)


lemma removeBlankFields_plain:
  "list_all plain_key (map fst p) \<Longrightarrow> list_all plain_key (map fst (removeBlankFields p))"
  by (auto simp: removeBlankFields_def list_all_iff)

lemma patch_payload_present:
  "b (res_key r) = Some p0 \<Longrightarrow>
   patch_payload r b = Some (delete_key ''owner'' (removeBlankFields p0))"
  by (simp add: patch_payload_def removeBlanks_def)

lemma patch_payload_absent:
  "b (res_key r) = None \<Longrightarrow> patch_payload r b = None"
  by (simp add: patch_payload_def removeBlanks_def)

lemma patch_payload_owner:
  "patch_payload r b = Some p \<Longrightarrow> ''owner'' \<notin> fst ` set p"
  by (auto simp: patch_payload_def delete_key_def)

section \<open>What an update leaves alone\<close>

lemma apply_sets_frame:
  "apply_sets M s r es d = Inr d' \<Longrightarrow> f \<notin> fst ` set es \<Longrightarrow> d' f = d f"
proof (induction es arbitrary: d')
  case Nil
  then show ?case by simp
next
  case (Cons e es)
  obtain k v where e: "e = (k, v)" by (cases e)
  from Cons.prems(2) e have k: "f \<noteq> k" and rest: "f \<notin> fst ` set es"
    by auto
  from Cons.prems(1) e obtain d0 where d0: "apply_sets M s r es d = Inr d0"
    and step: "d' = d0 \<or> (\<exists>w. d' = d0(k \<mapsto> w))"
    by (auto split: sum.splits casted.splits)
  from Cons.IH [OF d0 rest] have "d0 f = d f" .
  with step k show ?case by auto
qed

text \<open>A payload of plain keys carries no operator: it is its own \<^verbatim>\<open>$set\<close> part.\<close>

lemma plain_not_operator:
  assumes "list_all plain_key (map fst p)"
  shows "''$set'' \<notin> fst ` set p" and "''$unset'' \<notin> fst ` set p"
  using assms by (fastforce simp: list_all_iff plain_key_def)+

lemma plain_payload_parts:
  assumes "list_all plain_key (map fst p)"
  shows "set_part p = p" and "unset_part p = []" and "embedded_update r p"
proof -
  from plain_not_operator [OF assms]
  have none: "map_of p ''$set'' = None" "map_of p ''$unset'' = None"
    by (simp_all add: map_of_absent)
  have "\<forall>e \<in> set p. fst e \<noteq> ''$set'' \<and> fst e \<noteq> ''$unset''"
    using plain_not_operator [OF assms] by (metis imageI)
  then have "filter (\<lambda>(k, v). k \<noteq> ''$set'' \<and> k \<noteq> ''$unset'') p = p"
    by (induction p) auto
  with none show parts: "set_part p = p"
    by (simp add: set_part_def)
  from none show unsets: "unset_part p = []"
    by (simp add: unset_part_def)
  from none parts unsets assms show "embedded_update r p"
    by (simp add: embedded_update_def absent_or_object_def)
qed

lemma remove_fields_nil: "remove_fields r [] d = d"
  by (simp add: remove_fields_def)

lemma update_doc_plain_frame:
  assumes "list_all plain_key (map fst p)" and "update_doc M s r p d = Inr d'"
    and "f \<notin> fst ` set p"
  shows "d' f = d f"
proof -
  from assms(1,2) have "apply_sets M s r p d = Inr d'"
    by (auto simp: update_doc_def plain_payload_parts remove_fields_nil
        split: sum.splits)
  then show ?thesis using assms(3) by (rule apply_sets_frame)
qed

section \<open>Stepping through the handlers\<close>

lemma findById_cast:
  "castObjectId rid = Some i \<Longrightarrow> findById rid s = Inr (map_option (Pair i) (docs s i))"
  by (simp add: findById_def)

lemma findById_malformed:
  "castObjectId rid = None \<Longrightarrow> findById rid s = Inl CastError"
  by (simp add: findById_def)

lemma findOneAndUpdate_found:
  assumes "castObjectId rid = Some i" and "docs s i = Some d"
  shows "findOneAndUpdate M r rid p s =
    (case update_doc M s r p d of
       Inl e \<Rightarrow> (Inl e, s)
     | Inr d' \<Rightarrow> (Inr (Some d'), s\<lparr>docs := (docs s)(i \<mapsto> d')\<rparr>))"
  using assms by (simp add: findOneAndUpdate_def)

lemma update_step_mismatch:
  assumes "d ''user2'' \<noteq> None"
    and "\<not> strict_eq (map_of p ''user1'') (d ''user1'')"
    and "\<not> strict_eq (map_of p ''user2'') (d ''user2'')"
  shows "update_step M r rid p d s = (Inr (Message ''You are not involved in this project''), s)"
  using assms by (auto simp: update_step_def)

lemma update_step_store:
  assumes "castObjectId rid = Some i" and "docs s i = Some d"
    and "d ''user2'' = None \<or> strict_eq (map_of p ''user1'') (d ''user1'') \<or>
         strict_eq (map_of p ''user2'') (d ''user2'')"
  shows "update_step M r rid p d s =
    (case update_doc M s r p d of
       Inl e \<Rightarrow> (Inl e, s)
     | Inr d' \<Rightarrow> (Inr (Document (Some d')), s\<lparr>docs := (docs s)(i \<mapsto> d')\<rparr>))"
  using assms(3)
  by (auto simp: update_step_def findOneAndUpdate_found [OF assms(1,2)] split: sum.splits)

lemma update_route_no_payload:
  "patch_payload r b = None \<Longrightarrow> update_route M r rid b s = (Inl TypeError, s)"
  by (simp add: update_route_def)


lemma update_route_missing:
  "patch_payload r b = Some p \<Longrightarrow> castObjectId rid = Some i \<Longrightarrow> docs s i = None \<Longrightarrow>
   update_route M r rid b s = (Inl NotFound, s)"
  by (simp add: update_route_def findById_cast handle404_def)

lemma update_route_found:
  assumes "patch_payload r b = Some p" and "castObjectId rid = Some i"
    and "docs s i = Some d"
  shows "update_route M r rid b s =
    (case update_step M r rid p d s of
       (Inl e, s') \<Rightarrow> (Inl e, s')
     | (Inr x, s') \<Rightarrow>
         (case toObject x of
            Inl e \<Rightarrow> (Inl e, s')
          | Inr d' \<Rightarrow> (Inr \<lparr>status = 201, content = Json (res_key r) d'\<rparr>, s')))"
  using assms by (simp add: update_route_def findById_cast handle404_def)

lemma update_route_rejected:
  assumes "patch_payload r b = Some p" and "castObjectId rid = Some i"
    and "docs s i = Some d"
    and "update_step M r rid p d s = (Inr (Message m), s)"
  shows "update_route M r rid b s = (Inl TypeError, s)"
  by (simp add: update_route_found [OF assms(1-3)] assms(4) toObject_def)

lemma update_route_store:
  assumes "patch_payload r b = Some p" and "castObjectId rid = Some i"
    and "docs s i = Some d"
    and "d ''user2'' = None \<or> strict_eq (map_of p ''user1'') (d ''user1'') \<or>
         strict_eq (map_of p ''user2'') (d ''user2'')"
  shows "update_route M r rid b s =
    (case update_doc M s r p d of
       Inl e \<Rightarrow> (Inl e, s)
     | Inr d' \<Rightarrow>
         (Inr \<lparr>status = 201, content = Json (res_key r) d'\<rparr>,
          s\<lparr>docs := (docs s)(i \<mapsto> d')\<rparr>))"
  by (simp add: update_route_found [OF assms(1-3)] update_step_store [OF assms(2-4)]
      toObject_def split: sum.splits)

text \<open>
  The ways a PATCH on an existing document can end: with an error and the collection as
  it was, or with 201 and the document the store made of the payload.
\<close>

lemma update_route_outcomes:
  assumes "castObjectId rid = Some i" and "docs s i = Some d"
  shows "(\<exists>e. update_route M r rid b s = (Inl e, s)) \<or>
     (\<exists>p d'. patch_payload r b = Some p \<and> update_doc M s r p d = Inr d' \<and>
        update_route M r rid b s =
          (Inr \<lparr>status = 201, content = Json (res_key r) d'\<rparr>,
           s\<lparr>docs := (docs s)(i \<mapsto> d')\<rparr>))"
proof (cases "patch_payload r b")
  case None
  then show ?thesis by (simp add: update_route_no_payload)
next
  case (Some p)
  show ?thesis
  proof (cases "d ''user2'' = None \<or> strict_eq (map_of p ''user1'') (d ''user1'') \<or>
      strict_eq (map_of p ''user2'') (d ''user2'')")
    case True
    from update_route_store [OF Some assms True, of M] Some show ?thesis
      by (cases "update_doc M s r p d") auto
  next
    case False
    then have "update_step M r rid p d s =
        (Inr (Message ''You are not involved in this project''), s)"
      by (simp add: update_step_mismatch)
    from update_route_rejected [OF Some assms this] show ?thesis by simp
  qed
qed



lemma strict_eq_oid: "\<not> strict_eq x (Some (SOid a))"
  by (cases "(x, Some (SOid a))" rule: strict_eq.cases) auto

lemma strict_eq_absent: "strict_eq None y \<longleftrightarrow> y = None"
  by (cases y) auto

lemma update_step_not_message:
  assumes "d ''user2'' = None \<or> strict_eq (map_of p ''user1'') (d ''user1'') \<or>
           strict_eq (map_of p ''user2'') (d ''user2'')"
  shows "fst (update_step M r rid p d s) \<noteq> Inr (Message m)"
proof -
  obtain x s' where run: "findOneAndUpdate M r rid p s = (x, s')"
    by (cases "findOneAndUpdate M r rid p s")
  with assms have "fst (update_step M r rid p d s) = map_sum id Document x"
    by (auto simp: update_step_def)
  then show ?thesis by (cases x) auto
qed

section \<open>The samples, evaluated\<close>

lemmas principal_defs = alice_def bob_def carol_def dave_def mallory_def room_def

lemma res_key_samples:
  "res_key chatroom = ''chatroom''" "res_key project = ''project''"
  by (simp_all add: chatroom_def project_def)

lemma owner_slot_samples:
  "owner_slot chatroom = ''game''" "owner_slot project = ''project''"
  by (simp_all add: chatroom_def project_def)

lemma sample_ids:
  "castObjectId alice = Some alice" "castObjectId bob = Some bob"
  "castObjectId carol = Some carol" "castObjectId dave = Some dave"
  "castObjectId mallory = Some mallory" "castObjectId room = Some room"
  by (simp_all add: castObjectId_def is_hex_def principal_defs)

lemma pair_store_found: "docs pair_store room = Some pair_doc"
  by (simp add: pair_store_def)

lemma solo_store_found: "docs solo_store room = Some solo_doc"
  by (simp add: solo_store_def)

lemma stranger_body_payload:
  "patch_payload chatroom stranger_body = Some stranger_payload"
  by (simp add: patch_payload_def removeBlanks_def removeBlankFields_def delete_key_def
      stranger_body_def stranger_payload_def chatroom_def principal_defs)

lemma same_body_payload:
  "patch_payload chatroom same_body = Some same_payload"
  by (simp add: patch_payload_def removeBlanks_def removeBlankFields_def delete_key_def
      same_body_def same_payload_def chatroom_def principal_defs)

lemma rename_body_payload:
  "patch_payload project rename_body = Some rename_payload"
  by (simp add: patch_payload_def removeBlanks_def removeBlankFields_def delete_key_def
      rename_body_def rename_payload_def project_def)




lemma topic_body_payload:
  "patch_payload chatroom topic_body = Some topic_payload"
  by (simp add: patch_payload_def removeBlanks_def removeBlankFields_def delete_key_def
      topic_body_def topic_payload_def chatroom_def)

lemma takeover_body_payload:
  "patch_payload chatroom takeover_body = Some takeover_payload"
  by (simp add: patch_payload_def removeBlanks_def removeBlankFields_def delete_key_def
      takeover_body_def takeover_payload_def chatroom_def)

lemma bad_body_payload:
  "patch_payload chatroom bad_body = Some bad_payload"
  by (simp add: patch_payload_def removeBlanks_def removeBlankFields_def delete_key_def
      bad_body_def bad_payload_def chatroom_def)

lemma handover_body_payload:
  "patch_payload chatroom handover_body = Some handover_payload"
  by (simp add: patch_payload_def removeBlanks_def removeBlankFields_def delete_key_def
      handover_body_def handover_payload_def chatroom_def principal_defs)

lemma stranger_differs:
  "pair_doc ''user2'' \<noteq> None"
  "\<not> strict_eq (map_of stranger_payload ''user1'') (pair_doc ''user1'')"
  "\<not> strict_eq (map_of stranger_payload ''user2'') (pair_doc ''user2'')"
  by (simp_all add: pair_doc_def stranger_payload_def)

lemma rename_differs:
  "\<not> strict_eq (map_of rename_payload ''user1'') (pair_doc ''user1'')"
  "\<not> strict_eq (map_of rename_payload ''user2'') (pair_doc ''user2'')"
  by (simp_all add: pair_doc_def rename_payload_def)


lemma topic_update:
  "update_doc M s chatroom topic_payload d = Inr d"
  by (simp add: update_doc_def embedded_update_def absent_or_object_def set_part_def
      unset_part_def plain_key_def remove_fields_nil cast_entry_def topic_payload_def
      chatroom_def)

lemma stranger_update:
  "update_doc M s chatroom stranger_payload d =
     Inr (d(''user2'' \<mapsto> SOid dave, ''user1'' \<mapsto> SOid carol))"
  by (simp add: update_doc_def embedded_update_def absent_or_object_def set_part_def
      unset_part_def plain_key_def remove_fields_nil cast_entry_def stranger_payload_def
      chatroom_def sample_ids)


lemma takeover_update:
  "update_doc M s chatroom takeover_payload d = Inr (d(''owner'' \<mapsto> SOid mallory))"
  by (simp add: update_doc_def embedded_update_def absent_or_object_def set_part_def
      unset_part_def plain_key_def remove_fields_nil cast_entry_def takeover_payload_def
      chatroom_def sample_ids)

lemma bad_update:
  "update_doc M s chatroom bad_payload d = Inl CastError"
  by (simp add: update_doc_def embedded_update_def absent_or_object_def set_part_def
      unset_part_def plain_key_def remove_fields_def cast_entry_def bad_payload_def
      chatroom_def castObjectId_def)

lemma handover_update:
  "update_doc M s chatroom handover_payload solo_doc = Inr handed_doc"
  by (simp add: update_doc_def embedded_update_def absent_or_object_def set_part_def
      unset_part_def plain_key_def remove_fields_def cast_entry_def handover_payload_def
      chatroom_def sample_ids solo_doc_def handed_doc_def fun_eq_iff)

lemma forged_create:
  "create_doc M s chatroom forged_payload = Inr forged_doc"
  by (simp add: create_doc_def plain_key_def cast_entry_def validate_def present_def
      forged_payload_def forged_doc_def chatroom_def sample_ids)

section \<open>CREATE\<close>

text \<open>
  C1.  Claimed: for every CREATE request (POST /projects and POST /chatrooms) the
  \<^verbatim>\<open>owner\<close> of the stored and returned document is the authenticated principal's id,
  whatever the client sent.  The project handler does this (\<open>project_create_owner\<close>
  below).  The chatroom handler assigns \<^verbatim>\<open>req.body.game.owner\<close> and then stores
  \<^verbatim>\<open>req.body.chatroom\<close>: principal \<open>alice\<close> posting \<open>forged_body\<close> to the empty
  collection gets status 201 and a stored chatroom owned by \<open>mallory\<close>.
\<close>

theorem chatroom_create_keeps_client_owner:
  "create_route M chatroom alice forged_body empty_store =
     (Inr \<lparr>status = 201, content = Json ''chatroom'' forged_doc\<rparr>,
      \<lparr>docs = [new_oid 0 \<mapsto> forged_doc], next_id = 1\<rparr>)
   \<and> forged_doc ''owner'' = Some (SOid mallory) \<and> mallory \<noteq> alice"
  by (simp add: create_route_def Model_create_def forged_create forged_body_def
      empty_store_def res_key_samples owner_slot_samples forged_doc_def principal_defs)

text \<open>
  The sibling handler: whenever POST /projects stores a document made from a payload of
  plain field keys, its owner is the principal, also when the payload named another
  owner.
\<close>

lemma project_create_owner:
  assumes "create_route M project user b s = (Inr resp, s')"
    and "b ''project'' = Some g" and "list_all plain_key (map fst g)"
    and "castObjectId user = Some user"
  shows "\<exists>d. docs s' (new_oid (next_id s)) = Some d \<and> d ''owner'' = Some (SOid user) \<and>
           resp = \<lparr>status = 201, content = Json ''project'' d\<rparr>"
proof -
  let ?p = "assign_key ''owner'' (JStr user) g"
  have route: "create_route M project user b s =
      (case Model_create M project ?p s of
         (Inl e, s') \<Rightarrow> (Inl e, s')
       | (Inr d, s') \<Rightarrow> (Inr \<lparr>status = 201, content = Json ''project'' d\<rparr>, s'))"
    using assms(2) by (simp add: create_route_def project_def split: prod.splits sum.splits)
  have plain: "list_all plain_key (map fst ?p)"
    using delete_key_plain [OF assms(3), of "''owner''"]
    by (simp add: assign_key_def plain_key_def)
  have owner: "cast_entry M s project ''owner'' (JStr user) = Stored (SOid user)"
    using assms(4) by (simp add: cast_entry_def project_def)
  from assms(1) route obtain d where made: "create_doc M s project ?p = Inr d"
    and stored: "s' = s\<lparr>docs := (docs s)(new_oid (next_id s) \<mapsto> d), next_id := Suc (next_id s)\<rparr>"
    and resp: "resp = \<lparr>status = 201, content = Json ''project'' d\<rparr>"
    by (auto simp: Model_create_def split: sum.splits)
  from made plain obtain d0 where "apply_sets M s project ?p Map.empty = Inr d0" and "d = d0"
    by (auto simp: create_doc_def split: sum.splits if_splits)
  with owner have "d ''owner'' = Some (SOid user)"
    by (auto simp: assign_key_def split: sum.splits)
  with stored resp show ?thesis by simp
qed

text \<open>
  A chatroom POST whose body is just \<^verbatim>\<open>{chatroom: {...}}\<close> never gets as far as the
  store: line 62 dereferences \<^verbatim>\<open>req.body.game\<close>.
\<close>

lemma chatroom_create_without_game:
  "b ''game'' = None \<Longrightarrow> create_route M chatroom user b s = (Inl TypeError, s)"
  by (simp add: create_route_def chatroom_def)

section \<open>Requests for an id that is not there\<close>

text \<open>
  C4.  Claimed: for every id with no document in the collection, SHOW, UPDATE and DELETE
  each fail with NotFound and never with another kind of error.  Two requests for which
  this fails, both on the empty collection: \<^verbatim>\<open>GET /chatrooms/7\<close>, whose id is no
  ObjectId, so that \<^verbatim>\<open>findById\<close> is rejected with a CastError before \<^verbatim>\<open>handle404\<close>
  runs; and a PATCH for a well-formed id with the body \<^verbatim>\<open>{}\<close>, where line 80,
  \<^verbatim>\<open>delete req.body.chatroom.owner\<close>, throws a TypeError before the lookup.
\<close>

theorem missing_id_other_errors_counterexample:
  "docs empty_store ''7'' = None \<and>
   show_route chatroom ''7'' empty_store = (Inl CastError, empty_store) \<and>
   castObjectId room = Some room \<and> docs empty_store room = None \<and>
   update_route bare_mongoose chatroom room Map.empty empty_store =
     (Inl TypeError, empty_store)"
proof -
  have "castObjectId ''7'' = None"
    by (simp add: castObjectId_def)
  then have "show_route chatroom ''7'' empty_store = (Inl CastError, empty_store)"
    by (simp add: show_route_def findById_malformed)
  moreover have "patch_payload chatroom Map.empty = None"
    by (simp add: patch_payload_absent)
  then have "update_route bare_mongoose chatroom room Map.empty empty_store =
      (Inl TypeError, empty_store)"
    by (rule update_route_no_payload)
  ultimately show ?thesis by (simp add: empty_store_def sample_ids)
qed

text \<open>
  C4, amended.  For every id that is a well-formed ObjectId (24 hexadecimal digits) and
  has no document in the collection, SHOW and DELETE fail with NotFound, and UPDATE
  fails with NotFound when the request body carries the resource object and with a
  TypeError when the body has no entry for the resource; none of them changes the
  collection.
\<close>

theorem missing_id_not_found:
  assumes "castObjectId rid = Some i" and "docs s i = None"
  shows "show_route r rid s = (Inl NotFound, s) \<and>
         destroy_route user rid s = (Inl NotFound, s) \<and>
         update_route M r rid b s =
           (if b (res_key r) = None then (Inl TypeError, s) else (Inl NotFound, s))"
proof -
  from assms have "findById rid s = Inr None"
    by (simp add: findById_cast)
  then have "show_route r rid s = (Inl NotFound, s)"
    and "destroy_route user rid s = (Inl NotFound, s)"
    by (simp_all add: show_route_def destroy_route_def handle404_def)
  moreover have "update_route M r rid b s =
      (if b (res_key r) = None then (Inl TypeError, s) else (Inl NotFound, s))"
  proof (cases "b (res_key r)")
    case None
    then have "patch_payload r b = None"
      by (rule patch_payload_absent)
    with None show ?thesis by (simp add: update_route_no_payload)
  next
    case (Some p0)
    then have "patch_payload r b = Some (delete_key ''owner'' (removeBlankFields p0))"
      by (rule patch_payload_present [where b = b and r = r])
    from update_route_missing [OF this assms] Some show ?thesis by simp
  qed
  ultimately show ?thesis by simp
qed

text \<open>
  Nothing is stored under \<open>carol\<close>'s id: with a payload the PATCH is NotFound, with
  the empty body a TypeError.
\<close>

theorem missing_id_not_found_witness:
  "castObjectId carol = Some carol \<and> docs pair_store carol = None \<and>
   show_route chatroom carol pair_store = (Inl NotFound, pair_store) \<and>
   destroy_route alice carol pair_store = (Inl NotFound, pair_store) \<and>
   update_route bare_mongoose chatroom carol stranger_body pair_store =
     (Inl NotFound, pair_store) \<and>
   update_route bare_mongoose chatroom carol Map.empty pair_store =
     (Inl TypeError, pair_store)"
proof -
  have absent: "docs pair_store carol = None"
    by (simp add: pair_store_def principal_defs)
  have "stranger_body (res_key chatroom) \<noteq> None" "Map.empty (res_key chatroom) = None"
    by (simp_all add: stranger_body_def res_key_samples)
  with missing_id_not_found [OF sample_ids(3) absent,
      where r = chatroom and user = alice and M = bare_mongoose and b = stranger_body]
    missing_id_not_found [OF sample_ids(3) absent,
      where r = chatroom and user = alice and M = bare_mongoose and b = Map.empty]
    sample_ids(3) absent
  show ?thesis by simp
qed

section \<open>UPDATE\<close>

text \<open>
  In the statements below \<open>rid\<close> is a well-formed id, \<open>i\<close> the ObjectId it names and
  \<open>d\<close> the document stored under it; the payload \<open>p\<close> is \<^verbatim>\<open>req.body.<res_key>\<close> as
  the callback of lines 84-96 reads it, that is \<open>patch_payload r b\<close>.  The PATCH route
  takes no principal: whoever sends the request, the handler does the same.
\<close>

text \<open>
  C5.  Claimed: for every PATCH on an existing resource and every payload, the stored
  \<^verbatim>\<open>owner\<close> after the update is what it was before.  Line 80 deletes the top-level
  \<^verbatim>\<open>owner\<close> key only and line 88 hands the rest to Mongoose as it came, so an
  \<^verbatim>\<open>owner\<close> inside \<^verbatim>\<open>$set\<close> gets through: \<open>takeover_body\<close> makes \<open>mallory\<close> the
  owner of \<open>alice\<close>'s single-party chatroom, with status 201.
\<close>

theorem update_sets_owner_through_operator:
  "update_route M chatroom room takeover_body solo_store =
     (Inr \<lparr>status = 201, content = Json ''chatroom'' (solo_doc(''owner'' \<mapsto> SOid mallory))\<rparr>,
      solo_store\<lparr>docs := (docs solo_store)(room \<mapsto> solo_doc(''owner'' \<mapsto> SOid mallory))\<rparr>)
   \<and> solo_doc ''owner'' = Some (SOid alice) \<and> mallory \<noteq> alice"
proof -
  have single: "solo_doc ''user2'' = None \<or>
      strict_eq (map_of takeover_payload ''user1'') (solo_doc ''user1'') \<or>
      strict_eq (map_of takeover_payload ''user2'') (solo_doc ''user2'')"
    by (simp add: solo_doc_def)
  from update_route_store [OF takeover_body_payload sample_ids(6) solo_store_found single, of M]
  have "update_route M chatroom room takeover_body solo_store =
     (Inr \<lparr>status = 201, content = Json ''chatroom'' (solo_doc(''owner'' \<mapsto> SOid mallory))\<rparr>,
      solo_store\<lparr>docs := (docs solo_store)(room \<mapsto> solo_doc(''owner'' \<mapsto> SOid mallory))\<rparr>)"
    by (simp add: takeover_update res_key_samples)
  moreover have "solo_doc ''owner'' = Some (SOid alice)"
    by (simp add: solo_doc_def)
  moreover have "mallory \<noteq> alice"
    by (simp add: principal_defs)
  ultimately show ?thesis by blast
qed

text \<open>
  What the handler does achieve: a payload of plain field keys, whatever \<^verbatim>\<open>owner\<close> it
  names, leaves the stored owner alone.
\<close>

lemma update_plain_preserves_owner:
  assumes "castObjectId rid = Some i" and "docs s i = Some d"
    and "b (res_key r) = Some p0" and "list_all plain_key (map fst p0)"
  shows "\<exists>d'. docs (snd (update_route M r rid b s)) i = Some d' \<and> d' ''owner'' = d ''owner''"
proof -
  let ?p = "delete_key ''owner'' (removeBlankFields p0)"
  from assms(3) have p: "patch_payload r b = Some ?p"
    by (rule patch_payload_present [where b = b and r = r])
  have plain: "list_all plain_key (map fst ?p)"
    using assms(4) by (intro delete_key_plain removeBlankFields_plain)
  from update_route_outcomes [OF assms(1,2), of M r b] show ?thesis
  proof
    assume "\<exists>e. update_route M r rid b s = (Inl e, s)"
    with assms(2) show ?thesis by auto
  next
    assume "\<exists>p d'. patch_payload r b = Some p \<and> update_doc M s r p d = Inr d' \<and>
      update_route M r rid b s =
        (Inr \<lparr>status = 201, content = Json (res_key r) d'\<rparr>,
         s\<lparr>docs := (docs s)(i \<mapsto> d')\<rparr>)"
    with p obtain d' where made: "update_doc M s r ?p d = Inr d'"
      and run: "snd (update_route M r rid b s) = s\<lparr>docs := (docs s)(i \<mapsto> d')\<rparr>"
      by auto
    from plain made have "d' ''owner'' = d ''owner''"
      by (rule update_doc_plain_frame) (rule delete_key_absent)
    with run show ?thesis by simp
  qed
qed




text \<open>
  C7.  Claimed: on an existing resource whose stored \<^verbatim>\<open>user2\<close> is unset the update is
  applied unconditionally, for every sanitized payload.  The handler asks nothing, but
  the store does: \<open>bad_body\<close> names a \<^verbatim>\<open>user1\<close> that is no ObjectId, the cast fails,
  and the request on \<open>alice\<close>'s single-party chatroom ends in a CastError with
  nothing written.
\<close>

theorem update_single_party_refused_counterexample:
  "castObjectId room = Some room \<and> docs solo_store room = Some solo_doc \<and>
   solo_doc ''user2'' = None \<and>
   patch_payload chatroom bad_body = Some bad_payload \<and>
   update_route bare_mongoose chatroom room bad_body solo_store = (Inl CastError, solo_store)"
proof -
  have single: "solo_doc ''user2'' = None"
    by (simp add: solo_doc_def)
  then have "solo_doc ''user2'' = None \<or>
      strict_eq (map_of bad_payload ''user1'') (solo_doc ''user1'') \<or>
      strict_eq (map_of bad_payload ''user2'') (solo_doc ''user2'')"
    by simp
  from update_route_store [OF bad_body_payload sample_ids(6) solo_store_found this,
      of bare_mongoose]
  have "update_route bare_mongoose chatroom room bad_body solo_store =
      (Inl CastError, solo_store)"
    by (simp add: bad_update)
  with single show ?thesis
    by (simp add: sample_ids solo_store_found bad_body_payload)
qed

text \<open>
  C7, amended.  On an existing resource whose stored \<^verbatim>\<open>user2\<close> is unset, the update
  is handed to the store unconditionally, for every requester and every sanitized
  payload, without any participant or ownership check: whenever the store accepts the
  payload the update is applied and the answer is 201 with the updated document, and
  whenever it refuses (a value that does not cast) the request fails with the store's
  error and the collection is unchanged.
\<close>

theorem update_single_party_unconditional:
  assumes "patch_payload r b = Some p" and "castObjectId rid = Some i"
    and "docs s i = Some d" and "d ''user2'' = None"
  shows "update_route M r rid b s =
           (case update_doc M s r p d of
              Inl e \<Rightarrow> (Inl e, s)
            | Inr d' \<Rightarrow>
                (Inr \<lparr>status = 201, content = Json (res_key r) d'\<rparr>,
                 s\<lparr>docs := (docs s)(i \<mapsto> d')\<rparr>))"
proof -
  from assms(4) have "d ''user2'' = None \<or> strict_eq (map_of p ''user1'') (d ''user1'') \<or>
      strict_eq (map_of p ''user2'') (d ''user2'')"
    by simp
  with assms(1-3) show ?thesis by (rule update_route_store)
qed

text \<open>Two strangers take over \<open>alice\<close>'s single-party chatroom.\<close>

theorem update_single_party_unconditional_witness:
  "patch_payload chatroom stranger_body = Some stranger_payload \<and>
   castObjectId room = Some room \<and>
   docs solo_store room = Some solo_doc \<and> solo_doc ''user2'' = None \<and>
   update_route bare_mongoose chatroom room stranger_body solo_store =
     (Inr \<lparr>status = 201,
           content = Json ''chatroom'' (solo_doc(''user2'' \<mapsto> SOid dave, ''user1'' \<mapsto> SOid carol))\<rparr>,
      solo_store\<lparr>docs := (docs solo_store)
        (room \<mapsto> solo_doc(''user2'' \<mapsto> SOid dave, ''user1'' \<mapsto> SOid carol))\<rparr>)"
proof -
  have single: "solo_doc ''user2'' = None"
    by (simp add: solo_doc_def)
  from update_single_party_unconditional
      [OF stranger_body_payload sample_ids(6) solo_store_found single, of bare_mongoose]
    stranger_body_payload sample_ids(6) solo_store_found single
  show ?thesis by (simp add: stranger_update res_key_samples)
qed



text \<open>
  C2.  Claimed: on an existing resource whose \<^verbatim>\<open>user2\<close> is set, a payload whose
  \<^verbatim>\<open>user1\<close> and \<^verbatim>\<open>user2\<close> both differ from the stored values makes the handler
  return the message string and still perform the update.  It does not: the
  \<^verbatim>\<open>return\<close> of line 92 leaves the callback before \<^verbatim>\<open>findOneAndUpdate\<close>.  For
  \<open>stranger_body\<close> on \<open>pair_store\<close> every condition of the claim holds, and the
  collection after the request is not the one the update would have produced.
\<close>

theorem update_mismatch_no_update_counterexample:
  "castObjectId room = Some room \<and>
   docs pair_store room = Some pair_doc \<and> pair_doc ''user2'' \<noteq> None \<and>
   patch_payload chatroom stranger_body = Some stranger_payload \<and>
   \<not> strict_eq (map_of stranger_payload ''user1'') (pair_doc ''user1'') \<and>
   \<not> strict_eq (map_of stranger_payload ''user2'') (pair_doc ''user2'') \<and>
   snd (update_route bare_mongoose chatroom room stranger_body pair_store) \<noteq>
     snd (findOneAndUpdate bare_mongoose chatroom room stranger_payload pair_store)"
proof -
  note found = pair_store_found and payload = stranger_body_payload
    and differ = stranger_differs and id = sample_ids(6)
  have kept: "snd (update_route bare_mongoose chatroom room stranger_body pair_store) = pair_store"
    using update_route_rejected [OF payload id found update_step_mismatch [OF differ]]
    by simp
  define u where "u = pair_doc(''user2'' \<mapsto> SOid dave, ''user1'' \<mapsto> SOid carol)"
  have updated: "docs (snd (findOneAndUpdate bare_mongoose chatroom room stranger_payload
      pair_store)) room = Some u"
    by (simp add: findOneAndUpdate_found [OF id found] stranger_update u_def)
  have "u \<noteq> pair_doc"
  proof
    assume "u = pair_doc"
    then have "u ''user1'' = pair_doc ''user1''"
      by simp
    then show False
      by (simp add: u_def pair_doc_def principal_defs)
  qed
  with updated found
  have "docs (snd (findOneAndUpdate bare_mongoose chatroom room stranger_payload
      pair_store)) room \<noteq> docs pair_store room"
    by simp
  then have "snd (findOneAndUpdate bare_mongoose chatroom room stranger_payload pair_store) \<noteq>
      pair_store"
    by auto
  with id found payload differ kept show ?thesis by simp
qed

text \<open>
  C2, amended.  On an existing resource whose \<^verbatim>\<open>user2\<close> is set, when the payload's
  \<^verbatim>\<open>user1\<close> and \<^verbatim>\<open>user2\<close> both differ (\<^verbatim>\<open>!==\<close>) from the stored values, the
  authorization step yields the plain message string 'You are not involved in this
  project' rather than a structured rejection, and the update is not performed: the
  request leaves the collection as it was.
\<close>

theorem update_mismatch_message_without_update:
  assumes "patch_payload r b = Some p" and "castObjectId rid = Some i"
    and "docs s i = Some d" and "d ''user2'' \<noteq> None"
    and "\<not> strict_eq (map_of p ''user1'') (d ''user1'')"
    and "\<not> strict_eq (map_of p ''user2'') (d ''user2'')"
  shows "update_step M r rid p d s =
           (Inr (Message ''You are not involved in this project''), s) \<and>
         snd (update_route M r rid b s) = s"
proof -
  have step: "update_step M r rid p d s =
      (Inr (Message ''You are not involved in this project''), s)"
    using assms(4-6) by (rule update_step_mismatch)
  from update_route_rejected [OF assms(1-3) step] step show ?thesis by simp
qed

theorem update_mismatch_message_without_update_witness:
  "patch_payload chatroom stranger_body = Some stranger_payload \<and>
   castObjectId room = Some room \<and>
   docs pair_store room = Some pair_doc \<and> pair_doc ''user2'' \<noteq> None \<and>
   \<not> strict_eq (map_of stranger_payload ''user1'') (pair_doc ''user1'') \<and>
   \<not> strict_eq (map_of stranger_payload ''user2'') (pair_doc ''user2'') \<and>
   update_step bare_mongoose chatroom room stranger_payload pair_doc pair_store =
     (Inr (Message ''You are not involved in this project''), pair_store) \<and>
   snd (update_route bare_mongoose chatroom room stranger_body pair_store) = pair_store"
  using update_mismatch_message_without_update
      [OF stranger_body_payload sample_ids(6) pair_store_found stranger_differs,
       of bare_mongoose]
    stranger_body_payload sample_ids(6) pair_store_found stranger_differs
  by simp

text \<open>
  C9.  On an existing resource whose \<^verbatim>\<open>user2\<close> is set, when the payload's
  \<^verbatim>\<open>user1\<close> and \<^verbatim>\<open>user2\<close> both differ (\<^verbatim>\<open>!==\<close>) from the stored values, the
  collection is left exactly as it was and there is no success response:
  \<^verbatim>\<open>.toObject()\<close> fails on the string the callback resolved to, and the request ends
  with that TypeError in the error channel.
\<close>

theorem update_mismatch_ends_in_error:
  assumes "patch_payload r b = Some p" and "castObjectId rid = Some i"
    and "docs s i = Some d" and "d ''user2'' \<noteq> None"
    and "\<not> strict_eq (map_of p ''user1'') (d ''user1'')"
    and "\<not> strict_eq (map_of p ''user2'') (d ''user2'')"
  shows "update_step M r rid p d s =
           (Inr (Message ''You are not involved in this project''), s) \<and>
         toObject (Message ''You are not involved in this project'') = Inl TypeError \<and>
         update_route M r rid b s = (Inl TypeError, s)"
proof -
  from assms(4-6)
  have step: "update_step M r rid p d s =
      (Inr (Message ''You are not involved in this project''), s)"
    by (rule update_step_mismatch)
  moreover have "toObject (Message ''You are not involved in this project'') = Inl TypeError"
    by (simp add: toObject_def)
  moreover from assms(1-3) step have "update_route M r rid b s = (Inl TypeError, s)"
    by (rule update_route_rejected)
  ultimately show ?thesis by blast
qed

text \<open>Renaming the two-party project without naming a participant.\<close>

theorem update_mismatch_ends_in_error_witness:
  "patch_payload project rename_body = Some rename_payload \<and>
   castObjectId room = Some room \<and>
   docs pair_store room = Some pair_doc \<and> pair_doc ''user2'' \<noteq> None \<and>
   \<not> strict_eq (map_of rename_payload ''user1'') (pair_doc ''user1'') \<and>
   \<not> strict_eq (map_of rename_payload ''user2'') (pair_doc ''user2'') \<and>
   update_step bare_mongoose project room rename_payload pair_doc pair_store =
     (Inr (Message ''You are not involved in this project''), pair_store) \<and>
   update_route bare_mongoose project room rename_body pair_store =
     (Inl TypeError, pair_store)"
  using update_mismatch_ends_in_error
      [OF rename_body_payload sample_ids(6) pair_store_found stranger_differs(1)
         rename_differs, of bare_mongoose]
    rename_body_payload sample_ids(6) pair_store_found stranger_differs(1) rename_differs
  by simp

text \<open>
  C10.  Claimed: on an existing resource whose \<^verbatim>\<open>user2\<close> is set, a payload avoids the
  mismatch branch if and only if its \<^verbatim>\<open>user1\<close> equals the stored \<^verbatim>\<open>user1\<close> or its
  \<^verbatim>\<open>user2\<close> equals the stored \<^verbatim>\<open>user2\<close>.  That is the test line 91 is written to
  make (the branch answers 'You are not involved in this project'), but it makes it with
  \<^verbatim>\<open>!==\<close> between a string of the payload and an ObjectId object of the stored
  document, which holds whatever the two are.  \<open>same_body\<close> names exactly the two
  participants of the resource, by their ids, and still takes the mismatch branch and
  ends in the TypeError.
\<close>

theorem named_participants_take_mismatch_branch:
  "castObjectId room = Some room \<and> docs pair_store room = Some pair_doc \<and>
   patch_payload chatroom same_body = Some same_payload \<and>
   map_of same_payload ''user1'' = Some (JStr alice) \<and>
   map_of same_payload ''user2'' = Some (JStr bob) \<and>
   castObjectId alice = Some alice \<and> castObjectId bob = Some bob \<and>
   pair_doc ''user1'' = Some (SOid alice) \<and> pair_doc ''user2'' = Some (SOid bob) \<and>
   update_step M chatroom room same_payload pair_doc pair_store =
     (Inr (Message ''You are not involved in this project''), pair_store) \<and>
   update_route M chatroom room same_body pair_store = (Inl TypeError, pair_store)"
proof -
  have payload: "map_of same_payload ''user1'' = Some (JStr alice)"
    "map_of same_payload ''user2'' = Some (JStr bob)"
    by (simp_all add: same_payload_def)
  have stored: "pair_doc ''user1'' = Some (SOid alice)" "pair_doc ''user2'' = Some (SOid bob)"
    by (simp_all add: pair_doc_def)
  have differ: "pair_doc ''user2'' \<noteq> None"
    "\<not> strict_eq (map_of same_payload ''user1'') (pair_doc ''user1'')"
    "\<not> strict_eq (map_of same_payload ''user2'') (pair_doc ''user2'')"
    by (simp_all add: payload stored)
  have step: "update_step M chatroom room same_payload pair_doc pair_store =
      (Inr (Message ''You are not involved in this project''), pair_store)"
    using differ by (rule update_step_mismatch)
  from update_route_rejected [OF same_body_payload sample_ids(6) pair_store_found step]
    step payload stored sample_ids pair_store_found same_body_payload
  show ?thesis by simp
qed

text \<open>
  The condition of line 91 as it stands, on a resource whose stored \<^verbatim>\<open>user2\<close> is
  set: a payload that omits both \<^verbatim>\<open>user1\<close> and \<^verbatim>\<open>user2\<close> takes the mismatch
  branch exactly when the stored \<^verbatim>\<open>user1\<close> is set too; a payload stays out of the
  branch exactly when one of its two values is identical (\<^verbatim>\<open>===\<close>) to the stored
  one; and when both stored participants are ObjectIds every payload takes the branch.
\<close>

lemma mismatch_branch_condition:
  assumes "d ''user2'' \<noteq> None"
  shows "(map_of p ''user1'' = None \<and> map_of p ''user2'' = None \<longrightarrow>
            (fst (update_step M r rid p d s) =
               Inr (Message ''You are not involved in this project'')
             \<longleftrightarrow> d ''user1'' \<noteq> None)) \<and>
         (fst (update_step M r rid p d s) \<noteq>
            Inr (Message ''You are not involved in this project'')
          \<longleftrightarrow> strict_eq (map_of p ''user1'') (d ''user1'') \<or>
              strict_eq (map_of p ''user2'') (d ''user2'')) \<and>
         ((\<exists>a. d ''user1'' = Some (SOid a)) \<and> (\<exists>c. d ''user2'' = Some (SOid c)) \<longrightarrow>
            update_step M r rid p d s =
              (Inr (Message ''You are not involved in this project''), s))"
proof -
  have branch: "fst (update_step M r rid p d s) \<noteq>
        Inr (Message ''You are not involved in this project'')
      \<longleftrightarrow> strict_eq (map_of p ''user1'') (d ''user1'') \<or>
          strict_eq (map_of p ''user2'') (d ''user2'')"
  proof (cases "strict_eq (map_of p ''user1'') (d ''user1'') \<or>
      strict_eq (map_of p ''user2'') (d ''user2'')")
    case True
    then have "d ''user2'' = None \<or> strict_eq (map_of p ''user1'') (d ''user1'') \<or>
        strict_eq (map_of p ''user2'') (d ''user2'')"
      by simp
    from update_step_not_message [OF this] True show ?thesis by simp
  next
    case False
    then have "\<not> strict_eq (map_of p ''user1'') (d ''user1'')"
      and "\<not> strict_eq (map_of p ''user2'') (d ''user2'')"
      by auto
    from update_step_mismatch [OF assms this, of M r rid s] False show ?thesis by simp
  qed
  have omitted: "map_of p ''user1'' = None \<and> map_of p ''user2'' = None \<longrightarrow>
      (fst (update_step M r rid p d s) = Inr (Message ''You are not involved in this project'')
       \<longleftrightarrow> d ''user1'' \<noteq> None)"
    using branch assms by (auto simp: strict_eq_absent)
  have ids: "(\<exists>a. d ''user1'' = Some (SOid a)) \<and> (\<exists>c. d ''user2'' = Some (SOid c)) \<longrightarrow>
      update_step M r rid p d s = (Inr (Message ''You are not involved in this project''), s)"
  proof
    assume "(\<exists>a. d ''user1'' = Some (SOid a)) \<and> (\<exists>c. d ''user2'' = Some (SOid c))"
    then have "\<not> strict_eq (map_of p ''user1'') (d ''user1'')"
      and "\<not> strict_eq (map_of p ''user2'') (d ''user2'')"
      by (auto simp: strict_eq_oid)
    with assms show "update_step M r rid p d s =
        (Inr (Message ''You are not involved in this project''), s)"
      by (rule update_step_mismatch)
  qed
  from omitted branch ids show ?thesis by blast
qed

text \<open>
  The stored \<^verbatim>\<open>user1\<close> is required at creation, but an update can remove it.  After \<open>handover_body\<close> the chatroom has a \<^verbatim>\<open>user2\<close> and no
  \<^verbatim>\<open>user1\<close>, and a PATCH that names neither is then handed to the store and
  answered with 201.
\<close>

lemma participant_can_be_unset:
  "update_route M chatroom room handover_body solo_store =
     (Inr \<lparr>status = 201, content = Json ''chatroom'' handed_doc\<rparr>,
      solo_store\<lparr>docs := (docs solo_store)(room \<mapsto> handed_doc)\<rparr>) \<and>
   handed_doc ''user2'' \<noteq> None \<and> handed_doc ''user1'' = None \<and>
   map_of topic_payload ''user1'' = None \<and> map_of topic_payload ''user2'' = None \<and>
   fst (update_route M chatroom room topic_body
          (solo_store\<lparr>docs := (docs solo_store)(room \<mapsto> handed_doc)\<rparr>)) =
     Inr \<lparr>status = 201, content = Json ''chatroom'' handed_doc\<rparr>"
proof -
  let ?s = "solo_store\<lparr>docs := (docs solo_store)(room \<mapsto> handed_doc)\<rparr>"
  have single: "solo_doc ''user2'' = None \<or>
      strict_eq (map_of handover_payload ''user1'') (solo_doc ''user1'') \<or>
      strict_eq (map_of handover_payload ''user2'') (solo_doc ''user2'')"
    by (simp add: solo_doc_def)
  from update_route_store [OF handover_body_payload sample_ids(6) solo_store_found single, of M]
  have first: "update_route M chatroom room handover_body solo_store =
      (Inr \<lparr>status = 201, content = Json ''chatroom'' handed_doc\<rparr>, ?s)"
    by (simp add: handover_update res_key_samples)
  have found: "docs ?s room = Some handed_doc"
    by simp
  have fields: "handed_doc ''user2'' \<noteq> None" "handed_doc ''user1'' = None"
    by (simp_all add: handed_doc_def)
  have omitted: "map_of topic_payload ''user1'' = None" "map_of topic_payload ''user2'' = None"
    by (simp_all add: topic_payload_def)
  have "handed_doc ''user2'' = None \<or>
      strict_eq (map_of topic_payload ''user1'') (handed_doc ''user1'') \<or>
      strict_eq (map_of topic_payload ''user2'') (handed_doc ''user2'')"
    by (simp add: fields omitted)
  from update_route_store [OF topic_body_payload sample_ids(6) found this, of M]
  have "fst (update_route M chatroom room topic_body ?s) =
      Inr \<lparr>status = 201, content = Json ''chatroom'' handed_doc\<rparr>"
    by (simp add: topic_update res_key_samples)
  with first fields omitted show ?thesis by blast
qed

section \<open>DESTROY\<close>

text \<open>
  C3.  For every DELETE on an existing resource: when the principal is not the stored
  \<^verbatim>\<open>owner\<close>, the request fails with NotOwner, the collection is unchanged, and SHOW
  still returns the document with the same fields; when the principal is the owner, the
  answer is 204 with no content and the document is gone.
\<close>

theorem destroy_requires_owner:
  assumes "castObjectId rid = Some i" and "docs s i = Some d"
  shows "(d ''owner'' \<noteq> Some (SOid user) \<longrightarrow>
            destroy_route user rid s = (Inl NotOwner, s) \<and>
            show_route r rid (snd (destroy_route user rid s)) =
              (Inr \<lparr>status = 200, content = Json (res_key r) d\<rparr>, s)) \<and>
         (d ''owner'' = Some (SOid user) \<longrightarrow>
            destroy_route user rid s =
              (Inr \<lparr>status = 204, content = NoContent\<rparr>, deleteOne i s) \<and>
            docs (snd (destroy_route user rid s)) i = None \<and>
            fst (show_route r rid (snd (destroy_route user rid s))) = Inl NotFound)"
proof (cases "d ''owner'' = Some (SOid user)")
  case True
  with assms
  have "destroy_route user rid s = (Inr \<lparr>status = 204, content = NoContent\<rparr>, deleteOne i s)"
    by (simp add: destroy_route_def findById_cast handle404_def requireOwnership_def)
  with True assms(1) show ?thesis
    by (simp add: deleteOne_def show_route_def findById_cast handle404_def)
next
  case False
  with assms have "destroy_route user rid s = (Inl NotOwner, s)"
    by (simp add: destroy_route_def findById_cast handle404_def requireOwnership_def)
  with False assms show ?thesis
    by (simp add: show_route_def findById_cast handle404_def)
qed

text \<open>\<open>bob\<close>, a participant but not the owner, is refused; \<open>alice\<close> deletes.\<close>

theorem destroy_requires_owner_witness:
  "castObjectId room = Some room \<and> docs pair_store room = Some pair_doc \<and>
   pair_doc ''owner'' \<noteq> Some (SOid bob) \<and>
   destroy_route bob room pair_store = (Inl NotOwner, pair_store) \<and>
   show_route chatroom room (snd (destroy_route bob room pair_store)) =
     (Inr \<lparr>status = 200, content = Json ''chatroom'' pair_doc\<rparr>, pair_store) \<and>
   pair_doc ''owner'' = Some (SOid alice) \<and>
   destroy_route alice room pair_store =
     (Inr \<lparr>status = 204, content = NoContent\<rparr>, deleteOne room pair_store) \<and>
   docs (snd (destroy_route alice room pair_store)) room = None \<and>
   fst (show_route chatroom room (snd (destroy_route alice room pair_store))) = Inl NotFound"
proof -
  have other: "pair_doc ''owner'' \<noteq> Some (SOid bob)"
    and own: "pair_doc ''owner'' = Some (SOid alice)"
    by (simp_all add: pair_doc_def principal_defs)
  from destroy_requires_owner [OF sample_ids(6) pair_store_found, of bob chatroom]
    destroy_requires_owner [OF sample_ids(6) pair_store_found, of alice chatroom]
    other own pair_store_found sample_ids(6)
  show ?thesis unfolding res_key_samples by blast
qed

end
